theory Spec2Isabelle
  imports Main "HOL-Library.Word" "HOL-Library.Sublist"
begin

section \<open>JavaScript values seen by index.js\<close>

text \<open>
  The object literal stored at line 87 of index.js, \<^verbatim>\<open>{ client, qrCodeData, clientReady }\<close>.
  It has exactly these three properties; \<open>client\<close> is the handle of the external
  messaging client created by \<^verbatim>\<open>new Client(...)\<close> (handles are numbered in order of
  creation).
\<close>

record session =
  client :: nat
  qrCodeData :: string
  clientReady :: bool

text \<open>
  The values the handlers can meet: what a lookup in \<^verbatim>\<open>sessions\<close> yields, what the
  properties of the result hold, and what the body parsers put into \<^verbatim>\<open>req.body\<close>.
  \<open>JOther\<close> stands for any object or function that has none of the properties
  \<^verbatim>\<open>client\<close>, \<^verbatim>\<open>qrCodeData\<close>, \<^verbatim>\<open>clientReady\<close>, \<^verbatim>\<open>sessionDir\<close> and no callable
  \<^verbatim>\<open>replace\<close>: the members of \<^verbatim>\<open>Object.prototype\<close>, and the arrays and nested objects
  of a parsed body.
\<close>

datatype jsvalue =
    JUndefined
  | JNull
  | JBool bool
  | JNumber int
  | JString string
  | JSession session
  | JClient nat
  | JOther

text \<open>Truthiness, as tested by \<^verbatim>\<open>!x\<close> and \<^verbatim>\<open>if (x)\<close>.\<close>

fun truthy :: "jsvalue \<Rightarrow> bool" where
  "truthy JUndefined = False"
| "truthy JNull = False"
| "truthy (JBool b) = b"
| "truthy (JNumber n) = (n \<noteq> 0)"
| "truthy (JString s) = (s \<noteq> [])"
| "truthy (JSession r) = True"
| "truthy (JClient c) = True"
| "truthy JOther = True"

text \<open>
  Property reads of the destructuring assignments (lines 101, 167, 200). Only a session
  object has the properties; every other truthy value yields \<^verbatim>\<open>undefined\<close>. No value
  has a property \<^verbatim>\<open>sessionDir\<close>: line 87 does not store one.
\<close>

fun read_client :: "jsvalue \<Rightarrow> jsvalue" where
  "read_client (JSession r) = JClient (client r)"
| "read_client v = JUndefined"

fun read_qrCodeData :: "jsvalue \<Rightarrow> jsvalue" where
  "read_qrCodeData (JSession r) = JString (qrCodeData r)"
| "read_qrCodeData v = JUndefined"

fun read_clientReady :: "jsvalue \<Rightarrow> jsvalue" where
  "read_clientReady (JSession r) = JBool (clientReady r)"
| "read_clientReady v = JUndefined"

fun read_sessionDir :: "jsvalue \<Rightarrow> jsvalue" where
  "read_sessionDir v = JUndefined"

section \<open>The process state\<close>

text \<open>
  The variables \<^verbatim>\<open>qrCodeData\<close> and \<^verbatim>\<open>clientReady\<close> declared by \<^verbatim>\<open>let\<close> at lines 41-42,
  one pair per call of \<^verbatim>\<open>createNewClientSession\<close>, together with the \<^verbatim>\<open>sessionId\<close>
  argument the event handlers close over.
\<close>

record closure =
  var_sessionId :: string
  var_qrCodeData :: string
  var_clientReady :: bool

text \<open>What \<^verbatim>\<open>io.emit\<close> broadcasts.\<close>

datatype notification =
    NQr string string
  | NReady string
  | NAuthenticated string
  | NAuthFailure string string
  | NDisconnected string string

text \<open>
  The calls index.js makes on its collaborators and the deletion of a registry entry,
  in the order in which they happen.
\<close>

datatype effect =
    ClientInitialize nat
  | ClientSendMessage nat string jsvalue
  | ClientLogout nat
  | ClientDestroy nat
  | FsRmdir string
  | RegistryDelete string

text \<open>
  \<open>sessions\<close> holds the own properties of the object \<^verbatim>\<open>sessions\<close> of line 26, and
  \<open>sessions_proto\<close> its prototype: \<open>None\<close> is \<^verbatim>\<open>Object.prototype\<close>, which an object
  literal starts with, and \<open>Some r\<close> a session object put there by an assignment to the
  key \<^verbatim>\<open>__proto__\<close>. \<open>closures\<close> maps a client handle to the variables its event
  handlers close over, \<open>fs\<close> is the set of paths that exist on disk.
\<close>

record world =
  sessions :: "string \<rightharpoonup> session"
  sessions_proto :: "session option"
  closures :: "nat \<rightharpoonup> closure"
  next_client :: nat
  emitted :: "notification list"
  trace :: "effect list"
  fs :: "string set"

definition initial_world :: "string set \<Rightarrow> world" where
  "initial_world disk =
     \<lparr>sessions = Map.empty, sessions_proto = None, closures = Map.empty, next_client = 0,
      emitted = [], trace = [], fs = disk\<rparr>"

text \<open>
  The property names every object literal inherits from \<^verbatim>\<open>Object.prototype\<close>;
  \<^verbatim>\<open>__proto__\<close>, an accessor, is treated apart.
\<close>

definition object_prototype_names :: "string list" where
  "object_prototype_names =
     [''constructor'', ''hasOwnProperty'', ''isPrototypeOf'', ''propertyIsEnumerable'',
      ''toLocaleString'', ''toString'', ''valueOf'', ''__defineGetter__'',
      ''__defineSetter__'', ''__lookupGetter__'', ''__lookupSetter__'']"

definition object_prototype_get :: "string \<Rightarrow> jsvalue" where
  "object_prototype_get name =
     (if name \<in> set object_prototype_names then JOther else JUndefined)"

text \<open>
  \<^verbatim>\<open>sessions[sessionId]\<close> as an expression: an own property first, then the prototype
  chain.
\<close>

definition sessions_get :: "world \<Rightarrow> string \<Rightarrow> jsvalue" where
  "sessions_get w sessionId =
     (if sessionId = ''__proto__'' then
        (case sessions_proto w of None \<Rightarrow> JOther | Some r \<Rightarrow> JSession r)
      else case sessions w sessionId of
        Some r \<Rightarrow> JSession r
      | None \<Rightarrow>
         (case sessions_proto w of
            None \<Rightarrow> object_prototype_get sessionId
          | Some r \<Rightarrow>
             if sessionId = ''client'' then JClient (client r)
             else if sessionId = ''qrCodeData'' then JString (qrCodeData r)
             else if sessionId = ''clientReady'' then JBool (clientReady r)
             else object_prototype_get sessionId))"

text \<open>\<^verbatim>\<open>sessions[sessionId] = r\<close>: the key \<^verbatim>\<open>__proto__\<close> sets the prototype.\<close>

definition sessions_set :: "string \<Rightarrow> session \<Rightarrow> world \<Rightarrow> world" where
  "sessions_set sessionId r w =
     (if sessionId = ''__proto__'' then w\<lparr>sessions_proto := Some r\<rparr>
      else w\<lparr>sessions := (sessions w)(sessionId \<mapsto> r)\<rparr>)"

text \<open>\<^verbatim>\<open>delete sessions[sessionId]\<close> removes an own property and nothing else.\<close>

definition sessions_delete :: "string \<Rightarrow> world \<Rightarrow> world" where
  "sessions_delete sessionId w = w\<lparr>sessions := (sessions w)(sessionId := None)\<rparr>"

section \<open>Session creation\<close>

text \<open>
  \<^verbatim>\<open>crypto.randomBytes(15).toString('hex')\<close>; the random bytes are the argument.
\<close>

definition hex_digit :: "nat \<Rightarrow> char" where
  "hex_digit n = ''0123456789abcdef'' ! (n mod 16)"

definition byte_to_hex :: "8 word \<Rightarrow> string" where
  "byte_to_hex b = [hex_digit (unat b div 16), hex_digit (unat b mod 16)]"

definition generateSessionId :: "8 word list \<Rightarrow> string" where
  "generateSessionId bytes = concat (map byte_to_hex bytes)"

section \<open>The external client\<close>

text \<open>
  The client of whatsapp-web.js is not part of index.js. Of the client that lines 36-39
  build with the \<^verbatim>\<open>LocalAuth\<close> strategy the model keeps what the handlers depend on.
  The constructor of \<^verbatim>\<open>LocalAuth\<close> throws for a \<^verbatim>\<open>clientId\<close> that is not empty and has a
  character other than a letter, a digit, an underscore or a hyphen. The credentials of
  the client are kept in the directory \<^verbatim>\<open>session-<clientId>\<close> under \<^verbatim>\<open>.wwebjs_auth\<close>,
  which is made when \<^verbatim>\<open>initialize()\<close> is called, and \<^verbatim>\<open>logout()\<close> removes that directory
  before it resolves (\<open>client_logout\<close> below).
\<close>

datatype thrown = InvalidClientId

definition clientId_char :: "char \<Rightarrow> bool" where
  "clientId_char ch =
     (ch \<in> set ''-_0123456789abcdefghijklmnopqrstuvwxyzABCDEFGHIJKLMNOPQRSTUVWXYZ'')"

definition valid_clientId :: "string \<Rightarrow> bool" where
  "valid_clientId clientId = list_all clientId_char clientId"

definition userDataDir :: "string \<Rightarrow> string" where
  "userDataDir clientId =
     (if clientId = [] then ''.wwebjs_auth/session''
      else ''.wwebjs_auth/session-'' @ clientId)"

text \<open>
  \<^verbatim>\<open>createNewClientSession\<close>: a new client, unless the constructor of its strategy
  throws, in which case nothing has happened yet; the two variables with their initial
  values; \<^verbatim>\<open>client.initialize()\<close>, which makes the directory of the client; and the
  record built from the values the variables have at line 87. The handlers registered at
  lines 44-82 are \<open>on_event\<close> below.
\<close>

definition createNewClientSession :: "string \<Rightarrow> world \<Rightarrow> (thrown + string) \<times> world" where
  "createNewClientSession sessionId w =
     (if \<not> valid_clientId sessionId then (Inl InvalidClientId, w)
      else
        let c = next_client w;
            vars = \<lparr>var_sessionId = sessionId, var_qrCodeData = [], var_clientReady = False\<rparr>;
            w1 = w\<lparr>next_client := Suc c,
                   closures := (closures w)(c \<mapsto> vars),
                   trace := trace w @ [ClientInitialize c],
                   fs := insert (userDataDir sessionId) (fs w)\<rparr>;
            w2 = sessions_set sessionId
                   \<lparr>client = c, qrCodeData = var_qrCodeData vars,
                    clientReady = var_clientReady vars\<rparr> w1
        in (Inr sessionId, w2))"

section \<open>Client events\<close>

text \<open>
  The five events of the external client. A pairing code comes with what
  \<^verbatim>\<open>qrcode.toDataURL\<close> hands to its callback, \<open>Inl err\<close> or \<open>Inr url\<close>, and takes
  effect when that callback runs: the order of the events in a run is the order in which
  the handlers and callbacks are executed by the event loop.
\<close>

datatype client_event =
    Qr string "string + string"
  | Ready
  | Authenticated
  | AuthFailure string
  | Disconnected string

definition on_event :: "nat \<Rightarrow> client_event \<Rightarrow> world \<Rightarrow> world" where
  "on_event c ev w =
     (case closures w c of
        None \<Rightarrow> w
      | Some vars \<Rightarrow>
         (let sessionId = var_sessionId vars in
          case ev of
            Qr qr result \<Rightarrow>
              (case result of
                 Inl err \<Rightarrow> w
               | Inr url \<Rightarrow>
                   w\<lparr>closures := (closures w)
                        (c \<mapsto> vars\<lparr>var_qrCodeData := url, var_clientReady := False\<rparr>),
                     emitted := emitted w @ [NQr sessionId url]\<rparr>)
          | Ready \<Rightarrow>
              w\<lparr>closures := (closures w)
                   (c \<mapsto> vars\<lparr>var_qrCodeData := [], var_clientReady := True\<rparr>),
                emitted := emitted w @ [NReady sessionId]\<rparr>
          | Authenticated \<Rightarrow>
              w\<lparr>emitted := emitted w @ [NAuthenticated sessionId]\<rparr>
          | AuthFailure msg \<Rightarrow>
              w\<lparr>closures := (closures w)(c \<mapsto> vars\<lparr>var_qrCodeData := []\<rparr>),
                emitted := emitted w @ [NAuthFailure sessionId msg]\<rparr>
          | Disconnected reason \<Rightarrow>
              w\<lparr>closures := (closures w)
                   (c \<mapsto> vars\<lparr>var_qrCodeData := [], var_clientReady := False\<rparr>),
                emitted := emitted w @ [NDisconnected sessionId reason]\<rparr>))"

section \<open>HTTP handlers\<close>

datatype page =
    Text string
  | Json string string
  | QrPage jsvalue string
  | MessageForm string
  | ErrorPage

datatype response = Respond nat page | Redirect string

text \<open>A promise of the external client either resolves or rejects.\<close>

datatype outcome = Resolves | Rejects

text \<open>An exception that leaves an \<^verbatim>\<open>async\<close> handler: no response is sent.\<close>

datatype uncaught = TypeError

definition get_qr :: "string \<Rightarrow> world \<Rightarrow> response" where
  "get_qr sessionId w =
     (let session = sessions_get w sessionId in
      if \<not> truthy session then Respond 404 (Text ''Session not found.'')
      else
        let qr = read_qrCodeData session; ready = read_clientReady session in
        if truthy ready then Redirect (''/send-message/'' @ sessionId)
        else if truthy qr then Respond 200 (QrPage qr sessionId)
        else Respond 200 (Text ''QR code belum tersedia. Silakan coba lagi nanti.''))"

definition get_send_message :: "string \<Rightarrow> world \<Rightarrow> response" where
  "get_send_message sessionId w =
     (let session = sessions_get w sessionId in
      if \<not> truthy session \<or> \<not> truthy (read_clientReady session)
      then Redirect (''/qr/'' @ sessionId)
      else Respond 200 (MessageForm sessionId))"

record body =
  number :: jsvalue
  message :: jsvalue

text \<open>\<^verbatim>\<open>number.replace(/\D/g, '')\<close>: \<^verbatim>\<open>\D\<close> matches every character outside 0-9.\<close>

definition non_digit :: "char \<Rightarrow> bool" where
  "non_digit ch = (ch \<notin> set ''0123456789'')"

primrec remove_non_digits :: "string \<Rightarrow> string" where
  "remove_non_digits [] = []"
| "remove_non_digits (ch # rest) =
     (if non_digit ch then remove_non_digits rest else ch # remove_non_digits rest)"

text \<open>
  \<^verbatim>\<open>POST /send-message/:sessionId\<close>. \<open>send_result\<close> is what the promise of
  \<^verbatim>\<open>client.sendMessage\<close> does, if the call is made. A \<^verbatim>\<open>number\<close> that is truthy and
  not a string has no method \<^verbatim>\<open>replace\<close>: the TypeError is thrown before the
  \<^verbatim>\<open>try\<close>. A \<^verbatim>\<open>client\<close> that is \<^verbatim>\<open>undefined\<close> throws inside it.
\<close>

definition post_send_message ::
  "string \<Rightarrow> body \<Rightarrow> outcome \<Rightarrow> world \<Rightarrow> (uncaught + response) \<times> world" where
  "post_send_message sessionId b send_result w =
     (let session = sessions_get w sessionId in
      if \<not> truthy session then (Inr (Respond 404 (Text ''Session not found.'')), w)
      else
        let client = read_client session in
        if \<not> truthy (number b) \<or> \<not> truthy (message b) then
          (Inr (Respond 400 (Json ''error'' ''Please provide both number and message.'')), w)
        else
          case number b of
            JString n \<Rightarrow>
              (let formattedNumber = remove_non_digits n;
                   chatId = formattedNumber @ ''@c.us''
               in case client of
                    JClient c \<Rightarrow>
                      (let w1 = w\<lparr>trace := trace w @ [ClientSendMessage c chatId (message b)]\<rparr>
                       in case send_result of
                            Resolves \<Rightarrow> (Inr (Redirect (''/qr/'' @ sessionId)), w1)
                          | Rejects \<Rightarrow> (Inr (Respond 500 (Text ''Failed to send message.'')), w1))
                  | _ \<Rightarrow> (Inr (Respond 500 (Text ''Failed to send message.'')), w))
          | _ \<Rightarrow> (Inl TypeError, w))"

text \<open>
  What the environment decides during a logout: whether the work \<^verbatim>\<open>client.logout()\<close>
  does before it removes the directory (the logout of the page, the closing of the
  browser) resolves, and the disk that work leaves; whether \<^verbatim>\<open>client.destroy()\<close>, which
  finds the browser closed and does nothing to the disk, resolves; and whether
  \<^verbatim>\<open>fs.rmdirSync\<close> returns.
\<close>

record logout_env =
  logout_promise :: "string set \<Rightarrow> outcome \<times> string set"
  destroy_promise :: outcome
  rmdir_result :: outcome

text \<open>\<^verbatim>\<open>fs.existsSync\<close> answers \<^verbatim>\<open>false\<close> for anything that is not a path.\<close>

fun existsSync :: "jsvalue \<Rightarrow> string set \<Rightarrow> bool" where
  "existsSync (JString p) disk = (p \<in> disk)"
| "existsSync v disk = False"

text \<open>\<^verbatim>\<open>fs.rmdirSync(p, { recursive: true })\<close> removes \<open>p\<close> and all below it.\<close>

definition rmdirSync :: "string \<Rightarrow> string set \<Rightarrow> string set" where
  "rmdirSync p disk = {q \<in> disk. q \<noteq> p \<and> \<not> prefix (p @ ''/'') q}"

text \<open>
  The directory of the client with handle \<open>c\<close>: the client was built at line 37 with the
  \<^verbatim>\<open>sessionId\<close> its handlers close over as \<^verbatim>\<open>clientId\<close>. A handle that names no
  client has no directory.
\<close>

definition client_userDataDir :: "world \<Rightarrow> nat \<Rightarrow> string option" where
  "client_userDataDir w c =
     (case closures w c of
        None \<Rightarrow> None
      | Some vars \<Rightarrow> Some (userDataDir (var_sessionId vars)))"

text \<open>
  \<^verbatim>\<open>client.logout()\<close>: when the work before it resolves, the strategy removes the
  directory of the client, if it has one, and the promise resolves.
\<close>

definition client_logout ::
  "logout_env \<Rightarrow> string option \<Rightarrow> string set \<Rightarrow> outcome \<times> string set" where
  "client_logout env dir disk =
     (case logout_promise env disk of
        (Rejects, d) \<Rightarrow> (Rejects, d)
      | (Resolves, d) \<Rightarrow>
          (Resolves, (case dir of None \<Rightarrow> d | Some p \<Rightarrow> rmdirSync p d)))"

definition logout_failed :: response where
  "logout_failed = Respond 500 (Json ''error'' ''Failed to log out.'')"

definition logged_out :: response where
  "logged_out =
     Respond 200 (Json ''success'' ''Logged out and session cleared. Scan a new QR code.'')"

text \<open>
  \<^verbatim>\<open>POST /logout/:sessionId\<close>. Everything after the lookup runs inside the \<^verbatim>\<open>try\<close>:
  a rejected promise, a throwing \<^verbatim>\<open>rmdirSync\<close> and a \<^verbatim>\<open>client\<close> that is
  \<^verbatim>\<open>undefined\<close> all end in the \<^verbatim>\<open>catch\<close>. The handler is taken as one step: what
  other requests and events do while it awaits the client is not interleaved with it.
\<close>

definition post_logout :: "string \<Rightarrow> logout_env \<Rightarrow> world \<Rightarrow> response \<times> world" where
  "post_logout sessionId env w =
     (let session = sessions_get w sessionId in
      if \<not> truthy session then (Respond 404 (Text ''Session not found.''), w)
      else
        let client = read_client session; sessionDir = read_sessionDir session in
        case client of
          JClient c \<Rightarrow>
            (case client_logout env (client_userDataDir w c) (fs w) of
               (Rejects, d1) \<Rightarrow>
                 (logout_failed, w\<lparr>trace := trace w @ [ClientLogout c], fs := d1\<rparr>)
             | (Resolves, d1) \<Rightarrow>
                 (case destroy_promise env of
                    Rejects \<Rightarrow>
                      (logout_failed,
                       w\<lparr>trace := trace w @ [ClientLogout c, ClientDestroy c], fs := d1\<rparr>)
                  | Resolves \<Rightarrow>
                      (let w2 = w\<lparr>trace := trace w @ [ClientLogout c, ClientDestroy c],
                                  fs := d1\<rparr>
                       in if existsSync sessionDir d1 then
                            (case sessionDir of
                               JString p \<Rightarrow>
                                 (case rmdir_result env of
                                    Rejects \<Rightarrow>
                                      (logout_failed, w2\<lparr>trace := trace w2 @ [FsRmdir p]\<rparr>)
                                  | Resolves \<Rightarrow>
                                      (logged_out,
                                       sessions_delete sessionId
                                         (w2\<lparr>trace := trace w2 @
                                                      [FsRmdir p, RegistryDelete sessionId],
                                             fs := rmdirSync p d1\<rparr>)))
                             | _ \<Rightarrow> (logout_failed, w2))
                          else
                            (logged_out,
                             sessions_delete sessionId
                               (w2\<lparr>trace := trace w2 @ [RegistryDelete sessionId]\<rparr>)))))
        | _ \<Rightarrow> (logout_failed, w))"

text \<open>
  \<^verbatim>\<open>GET /start-session\<close>: a fresh id from the random bytes, the new session, and the
  redirect to its status page. An exception thrown by \<^verbatim>\<open>createNewClientSession\<close> ends
  in the error page of the framework.
\<close>

definition start_session :: "8 word list \<Rightarrow> world \<Rightarrow> response \<times> world" where
  "start_session bytes w =
     (let sessionId = generateSessionId bytes in
      case createNewClientSession sessionId w of
        (Inl e, w') \<Rightarrow> (Respond 500 ErrorPage, w')
      | (Inr sid, w') \<Rightarrow> (Redirect (''/qr/'' @ sessionId), w'))"

section \<open>Runs of the server\<close>

datatype action =
    StartSession "8 word list"
  | ClientEvent nat client_event
  | GetQr string
  | GetSendMessage string
  | PostSendMessage string body outcome
  | PostLogout string logout_env

fun step :: "action \<Rightarrow> world \<Rightarrow> world" where
  "step (StartSession bytes) w = snd (start_session bytes w)"
| "step (ClientEvent c ev) w = on_event c ev w"
| "step (GetQr sessionId) w = w"
| "step (GetSendMessage sessionId) w = w"
| "step (PostSendMessage sessionId b r) w = snd (post_send_message sessionId b r w)"
| "step (PostLogout sessionId env) w = snd (post_logout sessionId env w)"

fun run :: "action list \<Rightarrow> world \<Rightarrow> world" where
  "run [] w = w"
| "run (a # as) w = run as (step a w)"

section \<open>Reachable states\<close>

text \<open>
  What holds of the registry in every state the server reaches: its prototype is the one
  it started with; every key is made of hexadecimal digits; and the record under a key
  holds a client that exists and was built with that key as its \<^verbatim>\<open>clientId\<close>.
\<close>

definition hex_id :: "string \<Rightarrow> bool" where
  "hex_id sessionId = list_all (\<lambda>ch. ch \<in> set ''0123456789abcdef'') sessionId"

definition registry_ok :: "world \<Rightarrow> bool" where
  "registry_ok w =
     (sessions_proto w = None
      \<and> (\<forall>sessionId r. sessions w sessionId = Some r \<longrightarrow>
            hex_id sessionId
            \<and> client r < next_client w
            \<and> (\<exists>vars. closures w (client r) = Some vars \<and> var_sessionId vars = sessionId)))"

section \<open>Example states\<close>

text \<open>
  The state after \<^verbatim>\<open>createNewClientSession('A')\<close> on an empty disk, and that state
  after a first pairing code.
\<close>

definition world_A :: world where
  "world_A = snd (createNewClientSession ''A'' (initial_world {}))"

definition world_A_scanning :: world where
  "world_A_scanning = on_event 0 (Qr ''X123'' (Inr ''data:image/png;base64,AAAA'')) world_A"

text \<open>
  A logout in which both promises resolve and the client, apart from removing its
  directory, leaves the disk as it is; and one in which destroy rejects.
\<close>

definition resolving_env :: logout_env where
  "resolving_env =
     \<lparr>logout_promise = (\<lambda>disk. (Resolves, disk)),
      destroy_promise = Resolves,
      rmdir_result = Resolves\<rparr>"

definition stuck_env :: logout_env where
  "stuck_env =
     \<lparr>logout_promise = (\<lambda>disk. (Resolves, disk)),
      destroy_promise = Rejects,
      rmdir_result = Resolves\<rparr>"

definition hello :: body where
  "hello = \<lparr>number = JString ''+62 812-3456'', message = JString ''hi''\<rparr>"

definition some_bytes :: "8 word list" where
  "some_bytes = [0x00, 0x1f, 0x2e, 0x3d, 0x4c, 0x5b, 0x6a, 0x79, 0x88, 0x97, 0xa6, 0xb5,
                 0xc4, 0xd3, 0xe2]"

text \<open>
  The scenario of a full pairing: a session is started, its client raises a pairing
  code, then authenticated, then ready.
\<close>

definition pairing_run :: "action list" where
  "pairing_run =
     [StartSession some_bytes,
      ClientEvent 0 (Qr ''X123'' (Inr ''data:image/png;base64,AAAA'')),
      ClientEvent 0 Authenticated,
      ClientEvent 0 Ready]"

text \<open>The same scenario, stopped after the pairing code.\<close>

definition scanning_run :: "action list" where
  "scanning_run =
     [StartSession some_bytes,
      ClientEvent 0 (Qr ''X123'' (Inr ''data:image/png;base64,AAAA''))]"

section \<open>Basic facts\<close>

lemma remove_non_digits_filter:
  "remove_non_digits n = filter (\<lambda>ch. ch \<in> set ''0123456789'') n"
  by (induction n) (simp_all add: non_digit_def)

lemma sessions_get_trace_fs [simp]:
  "sessions_get (w\<lparr>trace := t, fs := d\<rparr>) sessionId = sessions_get w sessionId"
  by (simp add: sessions_get_def cong: option.case_cong)

lemma existsSync_sessionDir: "existsSync (read_sessionDir session) disk = False"
  by simp

lemma world_A_eq:
  "world_A =
     \<lparr>sessions = [''A'' \<mapsto> \<lparr>client = 0, qrCodeData = [], clientReady = False\<rparr>],
      sessions_proto = None,
      closures = [0 \<mapsto> \<lparr>var_sessionId = ''A'', var_qrCodeData = [], var_clientReady = False\<rparr>],
      next_client = Suc 0, emitted = [], trace = [ClientInitialize 0],
      fs = {''.wwebjs_auth/session-A''}\<rparr>"
  by (simp add: world_A_def createNewClientSession_def initial_world_def sessions_set_def Let_def
      valid_clientId_def clientId_char_def userDataDir_def)

lemma sessions_get_world_A:
  "sessions_get world_A ''A'' = JSession \<lparr>client = 0, qrCodeData = [], clientReady = False\<rparr>"
  by (simp add: world_A_eq sessions_get_def)

lemma scanning_run_result:
  "run scanning_run (initial_world {}) =
     \<lparr>sessions = [''001f2e3d4c5b6a798897a6b5c4d3e2'' \<mapsto>
                    \<lparr>client = 0, qrCodeData = [], clientReady = False\<rparr>],
      sessions_proto = None,
      closures = [0 \<mapsto> \<lparr>var_sessionId = ''001f2e3d4c5b6a798897a6b5c4d3e2'',
                          var_qrCodeData = ''data:image/png;base64,AAAA'',
                          var_clientReady = False\<rparr>],
      next_client = Suc 0,
      emitted = [NQr ''001f2e3d4c5b6a798897a6b5c4d3e2'' ''data:image/png;base64,AAAA''],
      trace = [ClientInitialize 0],
      fs = {''.wwebjs_auth/session-001f2e3d4c5b6a798897a6b5c4d3e2''}\<rparr>"
  by (simp add: scanning_run_def initial_world_def start_session_def createNewClientSession_def
      sessions_set_def on_event_def Let_def generateSessionId_def some_bytes_def
      byte_to_hex_def hex_digit_def valid_clientId_def clientId_char_def userDataDir_def)

lemma post_send_message_delegated:
  assumes "sessions_get w sessionId = JSession r" and "number b = JString n"
    and "n \<noteq> []" and "truthy (message b)"
  shows "post_send_message sessionId b res w =
           (Inr (case res of Resolves \<Rightarrow> Redirect (''/qr/'' @ sessionId)
                 | Rejects \<Rightarrow> Respond 500 (Text ''Failed to send message.'')),
            w\<lparr>trace := trace w @
                 [ClientSendMessage (client r) (remove_non_digits n @ ''@c.us'') (message b)]\<rparr>)"
  using assms by (simp add: post_send_message_def Let_def split: outcome.split)

lemma post_send_message_not_delegated:
  assumes "\<nexists>r n. sessions_get w sessionId = JSession r \<and> number b = JString n
             \<and> n \<noteq> [] \<and> truthy (message b)"
  shows "snd (post_send_message sessionId b res w) = w"
  using assms
  by (cases "sessions_get w sessionId"; cases "number b")
     (auto simp add: post_send_message_def Let_def split: outcome.split)

lemma post_send_message_unknown:
  assumes "sessions_get w sessionId = JUndefined"
  shows "post_send_message sessionId b res w =
           (Inr (Respond 404 (Text ''Session not found.'')), w)"
  using assms by (simp add: post_send_message_def)

lemma post_send_message_missing_field:
  assumes "truthy (sessions_get w sessionId)"
    and "\<not> truthy (number b) \<or> \<not> truthy (message b)"
  shows "post_send_message sessionId b res w =
           (Inr (Respond 400 (Json ''error'' ''Please provide both number and message.'')), w)"
  using assms by (auto simp add: post_send_message_def Let_def)

lemma get_qr_by_lookup:
  "sessions_get w sessionId = JUndefined \<Longrightarrow>
     get_qr sessionId w = Respond 404 (Text ''Session not found.'')"
  "sessions_get w sessionId = JSession r \<Longrightarrow> clientReady r \<Longrightarrow>
     get_qr sessionId w = Redirect (''/send-message/'' @ sessionId)"
  "sessions_get w sessionId = JSession r \<Longrightarrow> \<not> clientReady r \<Longrightarrow> qrCodeData r \<noteq> [] \<Longrightarrow>
     get_qr sessionId w = Respond 200 (QrPage (JString (qrCodeData r)) sessionId)"
  "sessions_get w sessionId = JSession r \<Longrightarrow> \<not> clientReady r \<Longrightarrow> qrCodeData r = [] \<Longrightarrow>
     get_qr sessionId w = Respond 200 (Text ''QR code belum tersedia. Silakan coba lagi nanti.'')"
  by (simp_all add: get_qr_def)

section \<open>Sending a message\<close>

text \<open>
  Claim C6. The destination is normalised by dropping every character that is not a
  digit and appending \<^verbatim>\<open>@c.us\<close>: when the lookup yields a session record, the number is
  a non-empty string and the message is present, the one call made on the client is
  \<^verbatim>\<open>sendMessage\<close> with the digits of the number, in their order, followed by the suffix.
  The number \<^verbatim>\<open>+62 812-3456\<close> becomes \<^verbatim>\<open>628123456@c.us\<close>.
\<close>

theorem send_message_normalizes_destination:
  assumes "sessions_get w sessionId = JSession r" and "number b = JString n"
    and "n \<noteq> []" and "truthy (message b)"
  shows "trace (snd (post_send_message sessionId b res w)) =
           trace w @ [ClientSendMessage (client r)
                        (filter (\<lambda>ch. ch \<in> set ''0123456789'') n @ ''@c.us'') (message b)]
         \<and> remove_non_digits ''+62 812-3456'' @ ''@c.us'' = ''628123456@c.us''"
proof
  show "trace (snd (post_send_message sessionId b res w)) =
           trace w @ [ClientSendMessage (client r)
                        (filter (\<lambda>ch. ch \<in> set ''0123456789'') n @ ''@c.us'') (message b)]"
    using post_send_message_delegated [OF assms, of res]
    by (simp add: remove_non_digits_filter)
  show "remove_non_digits ''+62 812-3456'' @ ''@c.us'' = ''628123456@c.us''"
    by (simp add: non_digit_def)
qed

text \<open>
  Claim C6 at the request of the scenario: session \<open>A\<close>, number \<^verbatim>\<open>+62 812-3456\<close>,
  message \<^verbatim>\<open>hi\<close>.
\<close>

theorem send_message_normalizes_destination_witness:
  "sessions_get world_A ''A'' = JSession \<lparr>client = 0, qrCodeData = [], clientReady = False\<rparr>
   \<and> number hello = JString ''+62 812-3456'' \<and> ''+62 812-3456'' \<noteq> [] \<and> truthy (message hello)
   \<and> trace (snd (post_send_message ''A'' hello Resolves world_A)) =
       [ClientInitialize 0, ClientSendMessage 0 ''628123456@c.us'' (JString ''hi'')]"
proof -
  have h1: "sessions_get world_A ''A'' = JSession \<lparr>client = 0, qrCodeData = [], clientReady = False\<rparr>"
    by (rule sessions_get_world_A)
  have h2: "number hello = JString ''+62 812-3456''" by (simp add: hello_def)
  have h3: "''+62 812-3456'' \<noteq> []" by simp
  have h4: "truthy (message hello)" by (simp add: hello_def)
  from send_message_normalizes_destination [OF h1 h2 h3 h4, of Resolves]
  have "trace (snd (post_send_message ''A'' hello Resolves world_A)) =
       [ClientInitialize 0, ClientSendMessage 0 ''628123456@c.us'' (JString ''hi'')]"
    by (simp add: world_A_eq hello_def)
  with h1 h2 h3 h4 show ?thesis by blast
qed

text \<open>
  Claim C1 says that a request for a session that is not ready is rejected without a call
  on the client. Session \<open>A\<close> has just been created: the stored record and the variables
  of its closure both say not ready. The request is answered with the redirect of a
  successful send, and \<^verbatim>\<open>sendMessage\<close> has been called.
\<close>

theorem send_message_not_ready_counterexample:
  "sessions world_A ''A'' = Some \<lparr>client = 0, qrCodeData = [], clientReady = False\<rparr>
   \<and> closures world_A 0 =
       Some \<lparr>var_sessionId = ''A'', var_qrCodeData = [], var_clientReady = False\<rparr>
   \<and> post_send_message ''A'' hello Resolves world_A =
       (Inr (Redirect ''/qr/A''),
        world_A\<lparr>trace := [ClientInitialize 0,
                           ClientSendMessage 0 ''628123456@c.us'' (JString ''hi'')]\<rparr>)"
  by (simp add: world_A_eq hello_def post_send_message_def sessions_get_def Let_def non_digit_def)

text \<open>
  Claim C1, amended. The handler does not look at the readiness of the session. The
  client is called exactly when the lookup yields a session record, the number is a
  non-empty string and the message is present; the call is then made whatever the record
  says about readiness. In every other case the state is left as it was.
\<close>

theorem send_message_delegation:
  "(\<forall>r n. sessions_get w sessionId = JSession r \<and> number b = JString n \<and> n \<noteq> []
            \<and> truthy (message b) \<longrightarrow>
          trace (snd (post_send_message sessionId b res w)) =
            trace w @ [ClientSendMessage (client r) (remove_non_digits n @ ''@c.us'') (message b)])
   \<and> ((\<nexists>r n. sessions_get w sessionId = JSession r \<and> number b = JString n \<and> n \<noteq> []
            \<and> truthy (message b)) \<longrightarrow>
          snd (post_send_message sessionId b res w) = w)"
proof (intro conjI allI impI)
  fix r n
  assume "sessions_get w sessionId = JSession r \<and> number b = JString n \<and> n \<noteq> []
            \<and> truthy (message b)"
  then show "trace (snd (post_send_message sessionId b res w)) =
            trace w @ [ClientSendMessage (client r) (remove_non_digits n @ ''@c.us'') (message b)]"
    by (simp add: post_send_message_delegated)
next
  assume "\<nexists>r n. sessions_get w sessionId = JSession r \<and> number b = JString n \<and> n \<noteq> []
            \<and> truthy (message b)"
  then show "snd (post_send_message sessionId b res w) = w"
    by (rule post_send_message_not_delegated)
qed

text \<open>
  Claim C1, amended, at two requests for the session \<open>A\<close> that is not ready: one with
  both fields, whose send the client rejects, and one without a message.
\<close>

theorem send_message_delegation_witness:
  "sessions_get world_A ''A'' = JSession \<lparr>client = 0, qrCodeData = [], clientReady = False\<rparr>
   \<and> number hello = JString ''+62 812-3456'' \<and> ''+62 812-3456'' \<noteq> [] \<and> truthy (message hello)
   \<and> trace (snd (post_send_message ''A'' hello Rejects world_A)) =
       [ClientInitialize 0, ClientSendMessage 0 ''628123456@c.us'' (JString ''hi'')]
   \<and> (\<nexists>r n. sessions_get world_A ''A'' = JSession r
          \<and> number (hello\<lparr>message := JUndefined\<rparr>) = JString n \<and> n \<noteq> []
          \<and> truthy (message (hello\<lparr>message := JUndefined\<rparr>)))
   \<and> snd (post_send_message ''A'' (hello\<lparr>message := JUndefined\<rparr>) Resolves world_A) = world_A"
proof -
  have h1: "sessions_get world_A ''A'' = JSession \<lparr>client = 0, qrCodeData = [], clientReady = False\<rparr>
     \<and> number hello = JString ''+62 812-3456'' \<and> ''+62 812-3456'' \<noteq> [] \<and> truthy (message hello)"
    by (simp add: sessions_get_world_A hello_def)
  have h2: "\<nexists>r n. sessions_get world_A ''A'' = JSession r
          \<and> number (hello\<lparr>message := JUndefined\<rparr>) = JString n \<and> n \<noteq> []
          \<and> truthy (message (hello\<lparr>message := JUndefined\<rparr>))"
    by simp
  from send_message_delegation [of world_A "''A''" hello Rejects] h1
  have c1: "trace (snd (post_send_message ''A'' hello Rejects world_A)) =
       [ClientInitialize 0, ClientSendMessage 0 ''628123456@c.us'' (JString ''hi'')]"
    by (simp add: world_A_eq non_digit_def hello_def)
  from send_message_delegation [of world_A "''A''" "hello\<lparr>message := JUndefined\<rparr>" Resolves] h2
  have c2: "snd (post_send_message ''A'' (hello\<lparr>message := JUndefined\<rparr>) Resolves world_A) = world_A"
    by blast
  from h1 h2 c1 c2 show ?thesis by blast
qed

text \<open>
  Claim C5 says that a request for an id absent from the registry is answered with 404.
  No session has been created, yet for the id \<^verbatim>\<open>constructor\<close> the lookup at line 161
  finds the function every object literal inherits: the test at line 163 passes, and the
  answer is 500 with both fields present (the record has no client) and 400 with a field
  missing.
\<close>

theorem send_message_inherited_name:
  "sessions (initial_world {}) ''constructor'' = None
   \<and> post_send_message ''constructor'' hello Resolves (initial_world {}) =
       (Inr (Respond 500 (Text ''Failed to send message.'')), initial_world {})
   \<and> post_send_message ''constructor'' (hello\<lparr>message := JUndefined\<rparr>) Resolves (initial_world {}) =
       (Inr (Respond 400 (Json ''error'' ''Please provide both number and message.'')),
        initial_world {})"
  by (simp add: initial_world_def hello_def post_send_message_def sessions_get_def Let_def
      object_prototype_get_def object_prototype_names_def)

text \<open>
  Claim C5 at that request: the answer for the id that names no session is 500.
\<close>

theorem send_message_inherited_name_witness:
  "fst (post_send_message ''constructor'' hello Resolves (initial_world {})) =
     Inr (Respond 500 (Text ''Failed to send message.''))"
  using send_message_inherited_name by simp

section \<open>The status page\<close>

text \<open>
  Claim C4 says that \<^verbatim>\<open>GET /qr/{id}\<close> shows the current QR image while the session
  awaits the scan, and answers NotFound for an id absent from the registry. Neither
  holds. A session is started and its client raises a pairing code, which the handler of
  lines 44-56 encodes, keeps in the variable \<^verbatim>\<open>qrCodeData\<close> and broadcasts; the status
  page of that session still tells that the QR code is not yet available, because the
  record it reads holds the empty string copied at line 87. And with no session created
  at all, the lookup at line 95 for the id \<^verbatim>\<open>constructor\<close> finds the function every object
  literal inherits: the test at line 97 passes and the answer is the same page, not 404.
\<close>

theorem get_qr_misses_state:
  "closures (run scanning_run (initial_world {})) 0 =
     Some \<lparr>var_sessionId = ''001f2e3d4c5b6a798897a6b5c4d3e2'',
           var_qrCodeData = ''data:image/png;base64,AAAA'', var_clientReady = False\<rparr>
   \<and> emitted (run scanning_run (initial_world {})) =
       [NQr ''001f2e3d4c5b6a798897a6b5c4d3e2'' ''data:image/png;base64,AAAA'']
   \<and> get_qr ''001f2e3d4c5b6a798897a6b5c4d3e2'' (run scanning_run (initial_world {})) =
       Respond 200 (Text ''QR code belum tersedia. Silakan coba lagi nanti.'')
   \<and> sessions (initial_world {}) ''constructor'' = None
   \<and> get_qr ''constructor'' (initial_world {}) =
       Respond 200 (Text ''QR code belum tersedia. Silakan coba lagi nanti.'')"
  unfolding scanning_run_result
  by (simp add: initial_world_def get_qr_def sessions_get_def Let_def
      object_prototype_get_def object_prototype_names_def)

text \<open>
  Claim C4 at the first of these requests: the answer is not the page with the QR image
  that has been broadcast.
\<close>

theorem get_qr_misses_state_witness:
  "get_qr ''001f2e3d4c5b6a798897a6b5c4d3e2'' (run scanning_run (initial_world {})) \<noteq>
     Respond 200 (QrPage (JString ''data:image/png;base64,AAAA'')
                    ''001f2e3d4c5b6a798897a6b5c4d3e2'')"
  using get_qr_misses_state by simp

section \<open>Creating a session\<close>

text \<open>
  Claim C9 says that creation under an id already present fails. Session \<open>A\<close> exists
  with client 0; creating \<open>A\<close> again returns the id and stores a record with the new
  client 1 in place of the old one.
\<close>

theorem create_overwrites_counterexample:
  "sessions world_A ''A'' = Some \<lparr>client = 0, qrCodeData = [], clientReady = False\<rparr>
   \<and> fst (createNewClientSession ''A'' world_A) = Inr ''A''
   \<and> sessions (snd (createNewClientSession ''A'' world_A)) ''A'' =
       Some \<lparr>client = 1, qrCodeData = [], clientReady = False\<rparr>"
  by (simp add: world_A_eq createNewClientSession_def sessions_set_def Let_def
      valid_clientId_def clientId_char_def)

text \<open>
  Claim C9, amended. \<^verbatim>\<open>createNewClientSession\<close> makes no check of presence. For every
  id the client accepts and every state, whether or not the id is present, it returns
  the id, and afterwards the lookup of the id yields the record just built, with the new
  client, an empty \<^verbatim>\<open>qrCodeData\<close> and \<^verbatim>\<open>clientReady\<close> false, replacing whatever the id
  named before. For an id the client refuses it throws, and nothing is stored.
\<close>

theorem create_never_checks_presence:
  "(valid_clientId sessionId \<longrightarrow>
      fst (createNewClientSession sessionId w) = Inr sessionId
      \<and> sessions_get (snd (createNewClientSession sessionId w)) sessionId =
          JSession \<lparr>client = next_client w, qrCodeData = [], clientReady = False\<rparr>)
   \<and> (\<not> valid_clientId sessionId \<longrightarrow>
      createNewClientSession sessionId w = (Inl InvalidClientId, w))"
  by (simp add: createNewClientSession_def sessions_set_def sessions_get_def Let_def)

text \<open>
  Claim C9, amended, at the session \<open>A\<close> that already exists, and at the id \<^verbatim>\<open>a b\<close>,
  which the client refuses.
\<close>

theorem create_never_checks_presence_witness:
  "valid_clientId ''A''
   \<and> sessions_get world_A ''A'' =
       JSession \<lparr>client = 0, qrCodeData = [], clientReady = False\<rparr>
   \<and> fst (createNewClientSession ''A'' world_A) = Inr ''A''
   \<and> sessions_get (snd (createNewClientSession ''A'' world_A)) ''A'' =
       JSession \<lparr>client = 1, qrCodeData = [], clientReady = False\<rparr>
   \<and> \<not> valid_clientId ''a b''
   \<and> createNewClientSession ''a b'' world_A = (Inl InvalidClientId, world_A)"
proof -
  have v: "valid_clientId ''A''" and n: "\<not> valid_clientId ''a b''"
    by (simp_all add: valid_clientId_def clientId_char_def)
  from create_never_checks_presence [of "''A''" world_A] v
  have a: "fst (createNewClientSession ''A'' world_A) = Inr ''A''
     \<and> sessions_get (snd (createNewClientSession ''A'' world_A)) ''A'' =
         JSession \<lparr>client = 1, qrCodeData = [], clientReady = False\<rparr>"
    by (simp add: world_A_eq)
  from create_never_checks_presence [of "''a b''" world_A] n
  have b: "createNewClientSession ''a b'' world_A = (Inl InvalidClientId, world_A)"
    by blast
  from v n a b sessions_get_world_A show ?thesis by blast
qed

section \<open>What the registry stores\<close>

text \<open>
  No handler and no event writes to a stored record: a step leaves the own properties of
  \<^verbatim>\<open>sessions\<close> alone, adds a record that has just been built, or deletes one.
\<close>

lemma on_event_registry [simp]:
  "sessions (on_event c ev w) = sessions w"
  "sessions_proto (on_event c ev w) = sessions_proto w"
  by (simp_all add: on_event_def Let_def split: option.split client_event.split sum.split)

lemma post_send_message_registry [simp]:
  "sessions (snd (post_send_message sessionId b res w)) = sessions w"
  "sessions_proto (snd (post_send_message sessionId b res w)) = sessions_proto w"
  "closures (snd (post_send_message sessionId b res w)) = closures w"
  by (simp_all add: post_send_message_def Let_def split: jsvalue.split outcome.split)

lemma post_logout_registry:
  "sessions (snd (post_logout sessionId env w)) = sessions w
   \<or> sessions (snd (post_logout sessionId env w)) = (sessions w)(sessionId := None)"
  by (simp add: post_logout_def sessions_delete_def Let_def
      split: jsvalue.split prod.split outcome.split)

lemma post_logout_closures [simp]:
  "closures (snd (post_logout sessionId env w)) = closures w"
  "sessions_proto (snd (post_logout sessionId env w)) = sessions_proto w"
  "next_client (snd (post_logout sessionId env w)) = next_client w"
  by (simp_all add: post_logout_def sessions_delete_def Let_def
      split: jsvalue.split prod.split outcome.split)

lemma hex_generateSessionId:
  "set (generateSessionId bytes) \<subseteq> set ''0123456789abcdef''"
proof -
  have "hex_digit n \<in> set ''0123456789abcdef''" for n
  proof -
    have "n mod 16 < length ''0123456789abcdef''" by simp
    then show ?thesis unfolding hex_digit_def by (rule nth_mem)
  qed
  then show ?thesis
    by (auto simp add: generateSessionId_def byte_to_hex_def)
qed

lemma valid_generateSessionId: "valid_clientId (generateSessionId bytes)"
proof -
  have "clientId_char ch" if "ch \<in> set ''0123456789abcdef''" for ch
    using that by (auto simp add: clientId_char_def)
  with hex_generateSessionId [of bytes] show ?thesis
    by (auto simp add: valid_clientId_def list_all_iff)
qed

lemma generateSessionId_not_proto: "generateSessionId bytes \<noteq> ''__proto__''"
proof
  assume "generateSessionId bytes = ''__proto__''"
  with hex_generateSessionId [of bytes] show False by simp
qed

lemma start_session_world:
  "snd (start_session bytes w) =
     w\<lparr>sessions := (sessions w)(generateSessionId bytes \<mapsto>
          \<lparr>client = next_client w, qrCodeData = [], clientReady = False\<rparr>),
       closures := (closures w)(next_client w \<mapsto>
          \<lparr>var_sessionId = generateSessionId bytes, var_qrCodeData = [],
           var_clientReady = False\<rparr>),
       next_client := Suc (next_client w),
       trace := trace w @ [ClientInitialize (next_client w)],
       fs := insert (userDataDir (generateSessionId bytes)) (fs w)\<rparr>"
  by (simp add: start_session_def createNewClientSession_def sessions_set_def Let_def
      valid_generateSessionId generateSessionId_not_proto)

lemma start_session_registry:
  "sessions (snd (start_session bytes w)) = sessions w
   \<or> sessions (snd (start_session bytes w)) =
       (sessions w)(generateSessionId bytes \<mapsto>
          \<lparr>client = next_client w, qrCodeData = [], clientReady = False\<rparr>)
       \<and> generateSessionId bytes \<noteq> ''__proto__''"
  by (simp add: start_session_world generateSessionId_not_proto)

lemma start_session_closures:
  "closures (snd (start_session bytes w)) =
     (closures w)(next_client w \<mapsto>
        \<lparr>var_sessionId = generateSessionId bytes, var_qrCodeData = [], var_clientReady = False\<rparr>)"
  by (simp add: start_session_world)

lemma step_keeps_snapshots:
  assumes "\<forall>sid r. sessions w sid = Some r \<longrightarrow> qrCodeData r = [] \<and> \<not> clientReady r"
    and "sessions w ''__proto__'' = None"
  shows "(\<forall>sid r. sessions (step a w) sid = Some r \<longrightarrow> qrCodeData r = [] \<and> \<not> clientReady r)
         \<and> sessions (step a w) ''__proto__'' = None"
proof (cases a)
  case (StartSession bytes)
  with assms start_session_registry [of bytes w] show ?thesis
    by (auto split: if_splits)
next
  case (PostLogout sessionId env)
  with assms post_logout_registry [of sessionId env w] show ?thesis
    by (auto split: if_splits)
qed (use assms in simp_all)

lemma run_keeps_snapshots:
  assumes "\<forall>sid r. sessions w sid = Some r \<longrightarrow> qrCodeData r = [] \<and> \<not> clientReady r"
    and "sessions w ''__proto__'' = None"
  shows "(\<forall>sid r. sessions (run acts w) sid = Some r \<longrightarrow> qrCodeData r = [] \<and> \<not> clientReady r)
         \<and> sessions (run acts w) ''__proto__'' = None"
  using assms
proof (induction acts arbitrary: w)
  case Nil
  then show ?case by simp
next
  case (Cons a acts)
  from step_keeps_snapshots [OF Cons.prems, of a]
  have "\<forall>sid r. sessions (step a w) sid = Some r \<longrightarrow> qrCodeData r = [] \<and> \<not> clientReady r"
    and "sessions (step a w) ''__proto__'' = None"
    by blast+
  from Cons.IH [OF this] show ?case by simp
qed

lemma pairing_run_result:
  "run pairing_run (initial_world {}) =
     \<lparr>sessions = [''001f2e3d4c5b6a798897a6b5c4d3e2'' \<mapsto>
                    \<lparr>client = 0, qrCodeData = [], clientReady = False\<rparr>],
      sessions_proto = None,
      closures = [0 \<mapsto> \<lparr>var_sessionId = ''001f2e3d4c5b6a798897a6b5c4d3e2'',
                          var_qrCodeData = [], var_clientReady = True\<rparr>],
      next_client = Suc 0,
      emitted = [NQr ''001f2e3d4c5b6a798897a6b5c4d3e2'' ''data:image/png;base64,AAAA'',
                 NAuthenticated ''001f2e3d4c5b6a798897a6b5c4d3e2'',
                 NReady ''001f2e3d4c5b6a798897a6b5c4d3e2''],
      trace = [ClientInitialize 0],
      fs = {''.wwebjs_auth/session-001f2e3d4c5b6a798897a6b5c4d3e2''}\<rparr>"
  by (simp add: pairing_run_def initial_world_def start_session_def createNewClientSession_def
      sessions_set_def on_event_def Let_def generateSessionId_def some_bytes_def
      byte_to_hex_def hex_digit_def valid_clientId_def clientId_char_def userDataDir_def)

lemma scanning_run_closure:
  "closures (run scanning_run (initial_world {})) 0 =
     Some \<lparr>var_sessionId = ''001f2e3d4c5b6a798897a6b5c4d3e2'',
           var_qrCodeData = ''data:image/png;base64,AAAA'', var_clientReady = False\<rparr>"
  by (simp add: scanning_run_result)

text \<open>
  Claim C10. The record stored at line 87 holds the values the two variables had at that
  moment. After any sequence of requests and client events from the start of the server,
  every record in the registry has an empty \<^verbatim>\<open>qrCodeData\<close> and \<^verbatim>\<open>clientReady\<close> false;
  \<^verbatim>\<open>GET /qr/{id}\<close> for its id therefore answers that the QR code is not yet available, and
  \<^verbatim>\<open>GET /send-message/{id}\<close> redirects to the status page.
\<close>

theorem stored_record_is_creation_snapshot:
  assumes "sessions (run acts (initial_world disk)) sessionId = Some r"
  shows "qrCodeData r = [] \<and> \<not> clientReady r
         \<and> get_qr sessionId (run acts (initial_world disk)) =
             Respond 200 (Text ''QR code belum tersedia. Silakan coba lagi nanti.'')
         \<and> get_send_message sessionId (run acts (initial_world disk)) =
             Redirect (''/qr/'' @ sessionId)"
proof -
  let ?w = "run acts (initial_world disk)"
  have "\<forall>sid r. sessions (initial_world disk) sid = Some r \<longrightarrow> qrCodeData r = [] \<and> \<not> clientReady r"
    and "sessions (initial_world disk) ''__proto__'' = None"
    by (simp_all add: initial_world_def)
  from run_keeps_snapshots [OF this, of acts]
  have inv: "\<forall>sid r. sessions ?w sid = Some r \<longrightarrow> qrCodeData r = [] \<and> \<not> clientReady r"
    and proto: "sessions ?w ''__proto__'' = None"
    by blast+
  from inv assms have fields: "qrCodeData r = [] \<and> \<not> clientReady r" by blast
  from proto assms have "sessionId \<noteq> ''__proto__''" by auto
  with assms have found: "sessions_get ?w sessionId = JSession r"
    by (simp add: sessions_get_def)
  from found fields have "get_qr sessionId ?w =
      Respond 200 (Text ''QR code belum tersedia. Silakan coba lagi nanti.'')"
    by (simp add: get_qr_def)
  moreover from found fields have "get_send_message sessionId ?w = Redirect (''/qr/'' @ sessionId)"
    by (simp add: get_send_message_def)
  ultimately show ?thesis using fields by blast
qed

text \<open>
  Claim C10 at the scenario of a full pairing: the variables of the closure say ready,
  the stored record and both pages still show the values of the creation.
\<close>

theorem stored_record_is_creation_snapshot_witness:
  "sessions (run pairing_run (initial_world {})) ''001f2e3d4c5b6a798897a6b5c4d3e2'' =
     Some \<lparr>client = 0, qrCodeData = [], clientReady = False\<rparr>
   \<and> closures (run pairing_run (initial_world {})) 0 =
       Some \<lparr>var_sessionId = ''001f2e3d4c5b6a798897a6b5c4d3e2'', var_qrCodeData = [],
             var_clientReady = True\<rparr>
   \<and> get_qr ''001f2e3d4c5b6a798897a6b5c4d3e2'' (run pairing_run (initial_world {})) =
       Respond 200 (Text ''QR code belum tersedia. Silakan coba lagi nanti.'')
   \<and> get_send_message ''001f2e3d4c5b6a798897a6b5c4d3e2'' (run pairing_run (initial_world {})) =
       Redirect ''/qr/001f2e3d4c5b6a798897a6b5c4d3e2''"
proof -
  have h: "sessions (run pairing_run (initial_world {})) ''001f2e3d4c5b6a798897a6b5c4d3e2'' =
     Some \<lparr>client = 0, qrCodeData = [], clientReady = False\<rparr>"
    by (simp add: pairing_run_result)
  have c: "closures (run pairing_run (initial_world {})) 0 =
       Some \<lparr>var_sessionId = ''001f2e3d4c5b6a798897a6b5c4d3e2'', var_qrCodeData = [],
             var_clientReady = True\<rparr>"
    by (simp add: pairing_run_result)
  from stored_record_is_creation_snapshot [OF h] h c show ?thesis by simp
qed

section \<open>The variables of a session\<close>

lemma on_event_closure:
  assumes "closures w c = Some vars"
  shows "closures (on_event c (Qr qr (Inr url)) w) c =
           Some (vars\<lparr>var_qrCodeData := url, var_clientReady := False\<rparr>)"
    and "closures (on_event c (Qr qr (Inl err)) w) c = Some vars"
    and "closures (on_event c Authenticated w) c = Some vars"
    and "closures (on_event c Ready w) c =
           Some (vars\<lparr>var_qrCodeData := [], var_clientReady := True\<rparr>)"
    and "closures (on_event c (AuthFailure msg) w) c = Some (vars\<lparr>var_qrCodeData := []\<rparr>)"
    and "closures (on_event c (Disconnected reason) w) c =
           Some (vars\<lparr>var_qrCodeData := [], var_clientReady := False\<rparr>)"
  using assms by (simp_all add: on_event_def Let_def)

lemma on_event_keeps_payload_rule:
  assumes "\<forall>c vars. closures w c = Some vars \<longrightarrow> var_qrCodeData vars \<noteq> [] \<longrightarrow> \<not> var_clientReady vars"
  shows "\<forall>c vars. closures (on_event k ev w) c = Some vars \<longrightarrow>
           var_qrCodeData vars \<noteq> [] \<longrightarrow> \<not> var_clientReady vars"
proof (cases "closures w k")
  case None
  with assms show ?thesis by (simp add: on_event_def)
next
  case (Some kv)
  show ?thesis
  proof (intro allI impI)
    fix c vars
    assume got: "closures (on_event k ev w) c = Some vars" and payload: "var_qrCodeData vars \<noteq> []"
    show "\<not> var_clientReady vars"
    proof (cases "c = k")
      case True
      with got payload Some assms show ?thesis
        by (cases ev) (auto simp add: on_event_def Let_def split: sum.splits)
    next
      case False
      with got Some have "closures w c = Some vars"
        by (cases ev) (auto simp add: on_event_def Let_def split: sum.splits)
      with assms payload show ?thesis by blast
    qed
  qed
qed

lemma step_keeps_payload_rule:
  assumes "\<forall>c vars. closures w c = Some vars \<longrightarrow> var_qrCodeData vars \<noteq> [] \<longrightarrow> \<not> var_clientReady vars"
  shows "\<forall>c vars. closures (step a w) c = Some vars \<longrightarrow>
           var_qrCodeData vars \<noteq> [] \<longrightarrow> \<not> var_clientReady vars"
proof (cases a)
  case (StartSession bytes)
  with assms show ?thesis by (auto simp add: start_session_closures split: if_splits)
next
  case (ClientEvent k ev)
  with on_event_keeps_payload_rule [OF assms, of k ev] show ?thesis by simp
qed (use assms in simp_all)

lemma run_keeps_payload_rule:
  assumes "\<forall>c vars. closures w c = Some vars \<longrightarrow> var_qrCodeData vars \<noteq> [] \<longrightarrow> \<not> var_clientReady vars"
  shows "\<forall>c vars. closures (run acts w) c = Some vars \<longrightarrow>
           var_qrCodeData vars \<noteq> [] \<longrightarrow> \<not> var_clientReady vars"
  using assms
proof (induction acts arbitrary: w)
  case Nil
  then show ?case by simp
next
  case (Cons a acts)
  from Cons.IH [OF step_keeps_payload_rule [OF Cons.prems, of a]] show ?case by simp
qed

text \<open>
  Claim C3 says that the QR payload is cleared on the transition into Authenticated.
  Session \<open>A\<close> holds a pairing code; after the event \<^verbatim>\<open>authenticated\<close> the variable
  \<^verbatim>\<open>qrCodeData\<close> still holds it: the handler of lines 66-69 only broadcasts.
\<close>

theorem qr_not_cleared_on_authenticated_counterexample:
  "closures world_A_scanning 0 =
     Some \<lparr>var_sessionId = ''A'', var_qrCodeData = ''data:image/png;base64,AAAA'',
           var_clientReady = False\<rparr>
   \<and> closures (on_event 0 Authenticated world_A_scanning) 0 =
       Some \<lparr>var_sessionId = ''A'', var_qrCodeData = ''data:image/png;base64,AAAA'',
             var_clientReady = False\<rparr>
   \<and> emitted (on_event 0 Authenticated world_A_scanning) =
       [NQr ''A'' ''data:image/png;base64,AAAA'', NAuthenticated ''A'']"
  by (simp add: world_A_scanning_def world_A_eq on_event_def Let_def)

text \<open>
  Claim C3, amended. After any sequence of requests and client events, the variable
  \<^verbatim>\<open>qrCodeData\<close> of a session is non-empty only while its \<^verbatim>\<open>clientReady\<close> is false. A
  pairing code whose encoding succeeds sets it to the encoded URL, one whose encoding
  fails leaves it as it is, and so does \<^verbatim>\<open>authenticated\<close>; \<^verbatim>\<open>ready\<close>, \<^verbatim>\<open>auth_failure\<close> and
  \<^verbatim>\<open>disconnected\<close> clear it.
\<close>

theorem qr_payload_by_event:
  assumes "closures (run acts (initial_world disk)) c = Some vars"
  shows "(var_qrCodeData vars \<noteq> [] \<longrightarrow> \<not> var_clientReady vars)
     \<and> closures (on_event c (Qr qr (Inr url)) (run acts (initial_world disk))) c =
         Some (vars\<lparr>var_qrCodeData := url, var_clientReady := False\<rparr>)
     \<and> closures (on_event c (Qr qr (Inl err)) (run acts (initial_world disk))) c = Some vars
     \<and> closures (on_event c Authenticated (run acts (initial_world disk))) c = Some vars
     \<and> closures (on_event c Ready (run acts (initial_world disk))) c =
         Some (vars\<lparr>var_qrCodeData := [], var_clientReady := True\<rparr>)
     \<and> closures (on_event c (AuthFailure msg) (run acts (initial_world disk))) c =
         Some (vars\<lparr>var_qrCodeData := []\<rparr>)
     \<and> closures (on_event c (Disconnected reason) (run acts (initial_world disk))) c =
         Some (vars\<lparr>var_qrCodeData := [], var_clientReady := False\<rparr>)"
proof -
  have "\<forall>c vars. closures (initial_world disk) c = Some vars \<longrightarrow>
          var_qrCodeData vars \<noteq> [] \<longrightarrow> \<not> var_clientReady vars"
    by (simp add: initial_world_def)
  from run_keeps_payload_rule [OF this, of acts] assms
  have "var_qrCodeData vars \<noteq> [] \<longrightarrow> \<not> var_clientReady vars" by blast
  with on_event_closure [OF assms] show ?thesis by simp
qed

text \<open>
  Claim C3, amended, at a session that holds a pairing code: the payload is there and
  the session is not ready; \<^verbatim>\<open>authenticated\<close> keeps the payload, \<^verbatim>\<open>ready\<close> clears it.
\<close>

theorem qr_payload_by_event_witness:
  "closures (run scanning_run (initial_world {})) 0 =
     Some \<lparr>var_sessionId = ''001f2e3d4c5b6a798897a6b5c4d3e2'',
           var_qrCodeData = ''data:image/png;base64,AAAA'', var_clientReady = False\<rparr>
   \<and> closures (on_event 0 Authenticated (run scanning_run (initial_world {}))) 0 =
       Some \<lparr>var_sessionId = ''001f2e3d4c5b6a798897a6b5c4d3e2'',
             var_qrCodeData = ''data:image/png;base64,AAAA'', var_clientReady = False\<rparr>
   \<and> closures (on_event 0 Ready (run scanning_run (initial_world {}))) 0 =
       Some \<lparr>var_sessionId = ''001f2e3d4c5b6a798897a6b5c4d3e2'',
             var_qrCodeData = [], var_clientReady = True\<rparr>"
  using qr_payload_by_event [OF scanning_run_closure] scanning_run_closure by simp

text \<open>
  Claim C7. For every session, two consecutive pairing codes leave exactly one current
  payload, the URL encoded from the second: the handler replaces the payload and does not
  accumulate. Each of the two events is broadcast as a \<^verbatim>\<open>qr\<close> notification that carries
  its own URL. (Should an encoding ever fail, the branch of line 47 leaves everything as
  it was.)
\<close>

theorem consecutive_pairing_codes:
  assumes "closures w c = Some vars"
  shows "closures (on_event c (Qr qr2 (Inr url2)) (on_event c (Qr qr1 (Inr url1)) w)) c =
           Some (vars\<lparr>var_qrCodeData := url2, var_clientReady := False\<rparr>)
     \<and> emitted (on_event c (Qr qr2 (Inr url2)) (on_event c (Qr qr1 (Inr url1)) w)) =
         emitted w @ [NQr (var_sessionId vars) url1, NQr (var_sessionId vars) url2]
     \<and> on_event c (Qr qr (Inl err)) w = w"
  using assms by (simp add: on_event_def Let_def)

text \<open>
  Claim C7 at two pairing codes for the session \<open>A\<close>.
\<close>

theorem consecutive_pairing_codes_witness:
  "closures world_A 0 =
     Some \<lparr>var_sessionId = ''A'', var_qrCodeData = [], var_clientReady = False\<rparr>
   \<and> closures (on_event 0 (Qr ''Y456'' (Inr ''data:image/png;base64,BBBB''))
                (on_event 0 (Qr ''X123'' (Inr ''data:image/png;base64,AAAA'')) world_A)) 0 =
       Some \<lparr>var_sessionId = ''A'', var_qrCodeData = ''data:image/png;base64,BBBB'',
             var_clientReady = False\<rparr>
   \<and> emitted (on_event 0 (Qr ''Y456'' (Inr ''data:image/png;base64,BBBB''))
                (on_event 0 (Qr ''X123'' (Inr ''data:image/png;base64,AAAA'')) world_A)) =
       [NQr ''A'' ''data:image/png;base64,AAAA'', NQr ''A'' ''data:image/png;base64,BBBB'']"
proof -
  have h: "closures world_A 0 =
     Some \<lparr>var_sessionId = ''A'', var_qrCodeData = [], var_clientReady = False\<rparr>"
    by (simp add: world_A_eq)
  from consecutive_pairing_codes [OF h, of "''Y456''" "''data:image/png;base64,BBBB''"
      "''X123''" "''data:image/png;base64,AAAA''"] h
  show ?thesis by (simp add: world_A_eq)
qed

section \<open>Logging out\<close>

text \<open>
  The registry of every state the server reaches is as \<open>registry_ok\<close> says; the logout
  of an id it holds is then one of three courses, decided by the two promises of the
  client.
\<close>

lemma rmdirSync_removes: "p \<notin> rmdirSync p disk"
  by (simp add: rmdirSync_def)

lemma hex_id_generateSessionId: "hex_id (generateSessionId bytes)"
proof -
  have "\<forall>ch \<in> set (generateSessionId bytes). ch \<in> set ''0123456789abcdef''"
    using hex_generateSessionId [of bytes] by blast
  then show ?thesis unfolding hex_id_def list_all_iff .
qed

lemma hex_not_inherited:
  assumes "hex_id sessionId"
  shows "sessionId \<noteq> ''__proto__''" and "object_prototype_get sessionId = JUndefined"
proof -
  from assms show "sessionId \<noteq> ''__proto__''" by (auto simp add: hex_id_def)
  from assms have "sessionId \<notin> set object_prototype_names"
    by (auto simp add: object_prototype_names_def hex_id_def)
  then show "object_prototype_get sessionId = JUndefined"
    by (simp add: object_prototype_get_def)
qed

lemma on_event_next_client [simp]: "next_client (on_event c ev w) = next_client w"
  by (simp add: on_event_def Let_def split: option.split client_event.split sum.split)

lemma on_event_keeps_sessionId:
  assumes "closures w c = Some vars"
  shows "\<exists>vars'. closures (on_event k ev w) c = Some vars' \<and> var_sessionId vars' = var_sessionId vars"
  using assms
  by (cases "closures w k"; cases ev)
     (auto simp add: on_event_def Let_def split: sum.splits)

lemma post_send_message_next_client [simp]:
  "next_client (snd (post_send_message sessionId b res w)) = next_client w"
  by (simp add: post_send_message_def Let_def split: jsvalue.split outcome.split)

lemma initial_registry_ok: "registry_ok (initial_world disk)"
  by (simp add: registry_ok_def initial_world_def)

lemma registry_ok_shrinks:
  assumes "registry_ok w"
    and "sessions_proto w' = sessions_proto w" and "closures w' = closures w"
    and "next_client w' = next_client w"
    and "\<And>sessionId r. sessions w' sessionId = Some r \<Longrightarrow> sessions w sessionId = Some r"
  shows "registry_ok w'"
  using assms unfolding registry_ok_def by metis

lemma step_keeps_registry_ok:
  assumes "registry_ok w"
  shows "registry_ok (step a w)"
proof (cases a)
  case (StartSession bytes)
  let ?id = "generateSessionId bytes"
  show ?thesis
    unfolding registry_ok_def
  proof (rule conjI; (intro allI impI)?)
    show "sessions_proto (step a w) = None"
      using assms StartSession by (simp add: registry_ok_def start_session_world)
  next
    fix sessionId r
    assume stored: "sessions (step a w) sessionId = Some r"
    show "hex_id sessionId \<and> client r < next_client (step a w)
          \<and> (\<exists>vars. closures (step a w) (client r) = Some vars \<and> var_sessionId vars = sessionId)"
    proof (cases "sessionId = ?id")
      case True
      with stored StartSession have "client r = next_client w"
        by (auto simp add: start_session_world)
      with True StartSession hex_id_generateSessionId [of bytes] show ?thesis
        by (simp add: start_session_world)
    next
      case False
      with stored StartSession have "sessions w sessionId = Some r"
        by (simp add: start_session_world)
      with assms obtain vars where "hex_id sessionId"
        and "client r < next_client w"
        and "closures w (client r) = Some vars" "var_sessionId vars = sessionId"
        unfolding registry_ok_def by blast
      with StartSession show ?thesis
        by (simp add: start_session_world)
    qed
  qed
next
  case (ClientEvent k ev)
  show ?thesis
    unfolding registry_ok_def
  proof (rule conjI; (intro allI impI)?)
    show "sessions_proto (step a w) = None"
      using assms ClientEvent by (simp add: registry_ok_def)
  next
    fix sessionId r
    assume "sessions (step a w) sessionId = Some r"
    with ClientEvent have r: "sessions w sessionId = Some r" by simp
    with assms obtain vars where hex: "hex_id sessionId"
      and lt: "client r < next_client w"
      and vars: "closures w (client r) = Some vars" "var_sessionId vars = sessionId"
      unfolding registry_ok_def by blast
    from on_event_keeps_sessionId [OF vars(1), of k ev] vars(2)
    have "\<exists>vars. closures (step a w) (client r) = Some vars \<and> var_sessionId vars = sessionId"
      using ClientEvent by simp
    with hex lt ClientEvent
    show "hex_id sessionId \<and> client r < next_client (step a w)
          \<and> (\<exists>vars. closures (step a w) (client r) = Some vars \<and> var_sessionId vars = sessionId)"
      by simp
  qed
next
  case (PostLogout sessionId env)
  have "sessions w k = Some r" if "sessions (step a w) k = Some r" for k r
    using that PostLogout post_logout_registry [of sessionId env w]
    by (auto split: if_splits)
  with PostLogout show ?thesis
    by (intro registry_ok_shrinks [OF assms]) simp_all
next
  case (PostSendMessage sessionId b res)
  then show ?thesis
    by (intro registry_ok_shrinks [OF assms]) simp_all
qed (use assms in simp_all)

lemma run_keeps_registry_ok: "registry_ok w \<Longrightarrow> registry_ok (run acts w)"
  by (induction acts arbitrary: w) (simp_all add: step_keeps_registry_ok)

lemma reachable_registry_ok: "registry_ok (run acts (initial_world disk))"
  by (rule run_keeps_registry_ok [OF initial_registry_ok])

lemma registry_ok_lookup:
  assumes "registry_ok w" and "sessions w sessionId = Some r"
  shows "sessions_get w sessionId = JSession r"
    and "client_userDataDir w (client r) = Some (userDataDir sessionId)"
    and "sessions_get (w\<lparr>sessions := (sessions w)(sessionId := None), trace := t, fs := d\<rparr>)
           sessionId = JUndefined"
proof -
  from assms obtain vars where hex: "hex_id sessionId"
    and proto: "sessions_proto w = None"
    and vars: "closures w (client r) = Some vars" "var_sessionId vars = sessionId"
    unfolding registry_ok_def by blast
  note hex_not_inherited [OF hex]
  with assms(2) show "sessions_get w sessionId = JSession r"
    by (simp add: sessions_get_def)
  from vars show "client_userDataDir w (client r) = Some (userDataDir sessionId)"
    by (simp add: client_userDataDir_def)
  from proto \<open>sessionId \<noteq> ''__proto__''\<close> \<open>object_prototype_get sessionId = JUndefined\<close>
  show "sessions_get (w\<lparr>sessions := (sessions w)(sessionId := None), trace := t, fs := d\<rparr>)
           sessionId = JUndefined"
    by (simp add: sessions_get_def)
qed

lemma post_logout_known:
  assumes "registry_ok w" and "sessions w sessionId = Some r"
  shows "post_logout sessionId env w =
     (case client_logout env (Some (userDataDir sessionId)) (fs w) of
        (Rejects, d) \<Rightarrow>
          (logout_failed, w\<lparr>trace := trace w @ [ClientLogout (client r)], fs := d\<rparr>)
      | (Resolves, d) \<Rightarrow>
          (case destroy_promise env of
             Rejects \<Rightarrow>
               (logout_failed,
                w\<lparr>trace := trace w @ [ClientLogout (client r), ClientDestroy (client r)],
                  fs := d\<rparr>)
           | Resolves \<Rightarrow>
               (logged_out,
                w\<lparr>sessions := (sessions w)(sessionId := None),
                  trace := trace w @ [ClientLogout (client r), ClientDestroy (client r),
                                      RegistryDelete sessionId],
                  fs := d\<rparr>)))"
  using registry_ok_lookup(1,2) [OF assms]
  by (simp add: post_logout_def sessions_delete_def Let_def split: prod.split outcome.split)

lemma client_logout_cases:
  "client_logout env (Some p) disk =
     (case logout_promise env disk of
        (Rejects, d) \<Rightarrow> (Rejects, d)
      | (Resolves, d) \<Rightarrow> (Resolves, rmdirSync p d))"
  by (simp add: client_logout_def split: prod.split outcome.split)

lemma client_logout_resolved:
  assumes "client_logout env (Some p) disk = (Resolves, d)"
  shows "p \<notin> d"
  using assms
  by (auto simp add: client_logout_def rmdirSync_removes split: prod.splits outcome.splits)

lemma client_logout_outcome [simp]:
  "fst (client_logout env dir disk) = fst (logout_promise env disk)"
  by (simp add: client_logout_def split: prod.split outcome.split)

lemma pairing_run_session:
  "sessions (run pairing_run (initial_world {})) ''001f2e3d4c5b6a798897a6b5c4d3e2'' =
     Some \<lparr>client = 0, qrCodeData = [], clientReady = False\<rparr>"
  "userDataDir ''001f2e3d4c5b6a798897a6b5c4d3e2'' \<in> fs (run pairing_run (initial_world {}))"
  "trace (run pairing_run (initial_world {})) = [ClientInitialize 0]"
  by (simp_all add: pairing_run_result userDataDir_def)

lemma post_logout_pairing_run:
  "fst (post_logout ''001f2e3d4c5b6a798897a6b5c4d3e2'' resolving_env
         (run pairing_run (initial_world {}))) = logged_out"
  by (simp add: post_logout_known [OF reachable_registry_ok pairing_run_session(1)]
      client_logout_def resolving_env_def)

text \<open>
  Claim C8. For every id in the registry of a state the server reaches, the client of
  the record is the one whose credential store is the directory of that id. When the
  client's logout and destroy both resolve, the answer is the success response and the
  entry is gone; the steps are the logout of the client, which removes the store before
  it resolves, then the teardown, then the deletion of the entry, which is the last: the
  disk after the handler is the disk the logout left, and the store is not on it. When
  the logout or the teardown rejects, the answer is the generic failure response, the
  registry is as it was, the lookup still yields the record, and no deletion has been
  made.
\<close>

theorem logout_deletes_entry_last:
  assumes "sessions (run acts (initial_world disk)) sessionId = Some r"
  shows "client_userDataDir (run acts (initial_world disk)) (client r) =
           Some (userDataDir sessionId)
       \<and> (fst (logout_promise env (fs (run acts (initial_world disk)))) = Resolves
            \<and> destroy_promise env = Resolves \<longrightarrow>
            fst (post_logout sessionId env (run acts (initial_world disk))) = logged_out
            \<and> sessions (snd (post_logout sessionId env (run acts (initial_world disk))))
                sessionId = None
            \<and> trace (snd (post_logout sessionId env (run acts (initial_world disk)))) =
                trace (run acts (initial_world disk)) @
                  [ClientLogout (client r), ClientDestroy (client r), RegistryDelete sessionId]
            \<and> fs (snd (post_logout sessionId env (run acts (initial_world disk)))) =
                snd (client_logout env (Some (userDataDir sessionId))
                       (fs (run acts (initial_world disk))))
            \<and> userDataDir sessionId \<notin>
                fs (snd (post_logout sessionId env (run acts (initial_world disk)))))
       \<and> (fst (logout_promise env (fs (run acts (initial_world disk)))) = Rejects
            \<or> destroy_promise env = Rejects \<longrightarrow>
            fst (post_logout sessionId env (run acts (initial_world disk))) = logout_failed
            \<and> sessions (snd (post_logout sessionId env (run acts (initial_world disk)))) =
                sessions (run acts (initial_world disk))
            \<and> sessions_get (snd (post_logout sessionId env (run acts (initial_world disk))))
                sessionId = JSession r
            \<and> (\<exists>steps. trace (snd (post_logout sessionId env (run acts (initial_world disk)))) =
                  trace (run acts (initial_world disk)) @ steps
                  \<and> RegistryDelete sessionId \<notin> set steps))"
proof -
  let ?w = "run acts (initial_world disk)"
  have ok: "registry_ok ?w" by (rule reachable_registry_ok)
  note known = post_logout_known [OF ok assms, of env]
  note found = registry_ok_lookup [OF ok assms]
  obtain o1 d where l: "client_logout env (Some (userDataDir sessionId)) (fs ?w) = (o1, d)"
    by (cases "client_logout env (Some (userDataDir sessionId)) (fs ?w)")
  from l have o1: "fst (logout_promise env (fs ?w)) = o1"
    using client_logout_outcome [of env "Some (userDataDir sessionId)" "fs ?w"] by simp
  show ?thesis
  proof (intro conjI impI)
    show "client_userDataDir ?w (client r) = Some (userDataDir sessionId)" by (rule found(2))
  next
    assume "fst (logout_promise env (fs ?w)) = Resolves \<and> destroy_promise env = Resolves"
    with o1 l have res: "client_logout env (Some (userDataDir sessionId)) (fs ?w) = (Resolves, d)"
      and des: "destroy_promise env = Resolves" by simp_all
    from res des known have after: "post_logout sessionId env ?w =
        (logged_out,
         ?w\<lparr>sessions := (sessions ?w)(sessionId := None),
            trace := trace ?w @ [ClientLogout (client r), ClientDestroy (client r),
                                RegistryDelete sessionId],
            fs := d\<rparr>)"
      by simp
    from after show "fst (post_logout sessionId env ?w) = logged_out" by simp
    from after show "sessions (snd (post_logout sessionId env ?w)) sessionId = None" by simp
    from after show "trace (snd (post_logout sessionId env ?w)) =
        trace ?w @ [ClientLogout (client r), ClientDestroy (client r), RegistryDelete sessionId]"
      by simp
    from after res show "fs (snd (post_logout sessionId env ?w)) =
        snd (client_logout env (Some (userDataDir sessionId)) (fs ?w))"
      by simp
    from after client_logout_resolved [OF res]
    show "userDataDir sessionId \<notin> fs (snd (post_logout sessionId env ?w))" by simp
  next
    assume "fst (logout_promise env (fs ?w)) = Rejects \<or> destroy_promise env = Rejects"
    with o1 have "o1 = Rejects \<or> (o1 = Resolves \<and> destroy_promise env = Rejects)"
      by (cases o1) auto
    with l known obtain steps d' where
      after: "post_logout sessionId env ?w =
                (logout_failed, ?w\<lparr>trace := trace ?w @ steps, fs := d'\<rparr>)"
      and none: "RegistryDelete sessionId \<notin> set steps"
      by auto
    from after show "fst (post_logout sessionId env ?w) = logout_failed" by simp
    from after show "sessions (snd (post_logout sessionId env ?w)) = sessions ?w" by simp
    from after found(1) show "sessions_get (snd (post_logout sessionId env ?w)) sessionId = JSession r"
      by simp
    from after none show "\<exists>steps. trace (snd (post_logout sessionId env ?w)) = trace ?w @ steps
        \<and> RegistryDelete sessionId \<notin> set steps"
      by simp
  qed
qed

text \<open>
  Claim C8 at the session of the pairing scenario, whose store is on disk: once with a
  client that resolves both promises, once with a client whose destroy rejects.
\<close>

theorem logout_deletes_entry_last_witness:
  "sessions (run pairing_run (initial_world {})) ''001f2e3d4c5b6a798897a6b5c4d3e2'' =
     Some \<lparr>client = 0, qrCodeData = [], clientReady = False\<rparr>
   \<and> userDataDir ''001f2e3d4c5b6a798897a6b5c4d3e2'' \<in> fs (run pairing_run (initial_world {}))
   \<and> fst (logout_promise resolving_env (fs (run pairing_run (initial_world {})))) = Resolves
   \<and> destroy_promise resolving_env = Resolves
   \<and> fst (post_logout ''001f2e3d4c5b6a798897a6b5c4d3e2'' resolving_env
            (run pairing_run (initial_world {}))) = logged_out
   \<and> sessions (snd (post_logout ''001f2e3d4c5b6a798897a6b5c4d3e2'' resolving_env
                      (run pairing_run (initial_world {}))))
       ''001f2e3d4c5b6a798897a6b5c4d3e2'' = None
   \<and> trace (snd (post_logout ''001f2e3d4c5b6a798897a6b5c4d3e2'' resolving_env
                   (run pairing_run (initial_world {})))) =
       [ClientInitialize 0, ClientLogout 0, ClientDestroy 0,
        RegistryDelete ''001f2e3d4c5b6a798897a6b5c4d3e2'']
   \<and> userDataDir ''001f2e3d4c5b6a798897a6b5c4d3e2'' \<notin>
       fs (snd (post_logout ''001f2e3d4c5b6a798897a6b5c4d3e2'' resolving_env
                 (run pairing_run (initial_world {}))))
   \<and> destroy_promise stuck_env = Rejects
   \<and> fst (post_logout ''001f2e3d4c5b6a798897a6b5c4d3e2'' stuck_env
            (run pairing_run (initial_world {}))) = logout_failed
   \<and> sessions (snd (post_logout ''001f2e3d4c5b6a798897a6b5c4d3e2'' stuck_env
                      (run pairing_run (initial_world {}))))
       ''001f2e3d4c5b6a798897a6b5c4d3e2'' =
       Some \<lparr>client = 0, qrCodeData = [], clientReady = False\<rparr>"
proof -
  let ?id = "''001f2e3d4c5b6a798897a6b5c4d3e2''"
  let ?w = "run pairing_run (initial_world {})"
  note h = pairing_run_session(1)
  have q: "fst (logout_promise resolving_env (fs ?w)) = Resolves
     \<and> destroy_promise resolving_env = Resolves"
    by (simp add: resolving_env_def)
  have s: "destroy_promise stuck_env = Rejects"
    by (simp add: stuck_env_def)
  note succeeded =
    logout_deletes_entry_last [OF h, of resolving_env, THEN conjunct2, THEN conjunct1,
      THEN mp, OF q]
  note failed =
    logout_deletes_entry_last [OF h, of stuck_env, THEN conjunct2, THEN conjunct2,
      THEN mp, OF disjI2 [OF s]]
  note a1 = succeeded [THEN conjunct1]
  note a2 = succeeded [THEN conjunct2, THEN conjunct1]
  note a3 = succeeded [THEN conjunct2, THEN conjunct2, THEN conjunct1]
  note a4 = succeeded [THEN conjunct2, THEN conjunct2, THEN conjunct2, THEN conjunct2]
  from a3 have a3': "trace (snd (post_logout ?id resolving_env ?w)) =
      [ClientInitialize 0, ClientLogout 0, ClientDestroy 0, RegistryDelete ?id]"
    by (simp add: pairing_run_session(3))
  note b1 = failed [THEN conjunct1]
  note b2 = failed [THEN conjunct2, THEN conjunct1]
  from b2 h have b3: "sessions (snd (post_logout ?id stuck_env ?w)) ?id =
      Some \<lparr>client = 0, qrCodeData = [], clientReady = False\<rparr>"
    by simp
  show ?thesis
    by (intro conjI)
       (rule h pairing_run_session(2) q [THEN conjunct1] q [THEN conjunct2] s a1 a2 a3' a4 b1 b3)+
qed

text \<open>
  Claim C2. For every id in the registry of a state the server reaches: once the logout
  of the id has answered with success, the lookup of the id finds nothing, the status
  page answers NotFound, and the credential store of the session is no longer on disk.
  (The store is removed by the logout of the client; the removal the handler attempts at
  lines 206-209 never runs, since the record has no \<^verbatim>\<open>sessionDir\<close>.)
\<close>

theorem logout_removes_record_and_store:
  assumes "sessions (run acts (initial_world disk)) sessionId = Some r"
    and "fst (post_logout sessionId env (run acts (initial_world disk))) = logged_out"
  shows "sessions_get (snd (post_logout sessionId env (run acts (initial_world disk))))
           sessionId = JUndefined
       \<and> get_qr sessionId (snd (post_logout sessionId env (run acts (initial_world disk)))) =
           Respond 404 (Text ''Session not found.'')
       \<and> userDataDir sessionId \<notin>
           fs (snd (post_logout sessionId env (run acts (initial_world disk))))"
proof -
  let ?w = "run acts (initial_world disk)"
  have ok: "registry_ok ?w" by (rule reachable_registry_ok)
  note known = post_logout_known [OF ok assms(1), of env]
  obtain o1 d where l: "client_logout env (Some (userDataDir sessionId)) (fs ?w) = (o1, d)"
    by (cases "client_logout env (Some (userDataDir sessionId)) (fs ?w)")
  have differ: "logout_failed \<noteq> logged_out"
    by (simp add: logout_failed_def logged_out_def)
  from assms(2) known l differ have res: "o1 = Resolves" and des: "destroy_promise env = Resolves"
    by (cases o1; cases "destroy_promise env"; simp)+
  from known l res des have after: "post_logout sessionId env ?w =
        (logged_out,
         ?w\<lparr>sessions := (sessions ?w)(sessionId := None),
            trace := trace ?w @ [ClientLogout (client r), ClientDestroy (client r),
                                RegistryDelete sessionId],
            fs := d\<rparr>)"
    by simp
  from after registry_ok_lookup(3) [OF ok assms(1)]
  have gone: "sessions_get (snd (post_logout sessionId env ?w)) sessionId = JUndefined"
    by simp
  then have "get_qr sessionId (snd (post_logout sessionId env ?w)) =
      Respond 404 (Text ''Session not found.'')"
    by (simp add: get_qr_def)
  moreover from l res have "userDataDir sessionId \<notin> d"
    using client_logout_resolved by blast
  with after have "userDataDir sessionId \<notin> fs (snd (post_logout sessionId env ?w))" by simp
  ultimately show ?thesis using gone by blast
qed

text \<open>
  Claim C2 at the session of the pairing scenario: its store is on disk before the
  logout, and gone after it.
\<close>

theorem logout_removes_record_and_store_witness:
  "sessions (run pairing_run (initial_world {})) ''001f2e3d4c5b6a798897a6b5c4d3e2'' =
     Some \<lparr>client = 0, qrCodeData = [], clientReady = False\<rparr>
   \<and> userDataDir ''001f2e3d4c5b6a798897a6b5c4d3e2'' \<in> fs (run pairing_run (initial_world {}))
   \<and> fst (post_logout ''001f2e3d4c5b6a798897a6b5c4d3e2'' resolving_env
            (run pairing_run (initial_world {}))) = logged_out
   \<and> get_qr ''001f2e3d4c5b6a798897a6b5c4d3e2''
        (snd (post_logout ''001f2e3d4c5b6a798897a6b5c4d3e2'' resolving_env
               (run pairing_run (initial_world {})))) =
       Respond 404 (Text ''Session not found.'')
   \<and> userDataDir ''001f2e3d4c5b6a798897a6b5c4d3e2'' \<notin>
       fs (snd (post_logout ''001f2e3d4c5b6a798897a6b5c4d3e2'' resolving_env
                 (run pairing_run (initial_world {}))))"
proof -
  note gone = logout_removes_record_and_store [OF pairing_run_session(1) post_logout_pairing_run]
  show ?thesis
    by (intro conjI)
       (rule pairing_run_session(1) pairing_run_session(2) post_logout_pairing_run
          gone [THEN conjunct2, THEN conjunct1] gone [THEN conjunct2, THEN conjunct2])+
qed

end
